theory Spec2Isabelle
  imports Main
begin

section \<open>Values, items and pagination metadata\<close>

text \<open>
  Identifiers travel through the pages as plain JavaScript values: the ids of images and
  people come out of JSON (numbers or strings), the id of the viewed person comes out of
  the route (always a string), and "no owner" is \<open>null\<close>. The pages compare them with
  \<open>!==\<close> and test them with \<open>if (personId)\<close>, so both are modelled on the values
  themselves. Numbers are the integers JSON can carry; on these primitives \<open>!==\<close> is
  plain inequality.
\<close>

datatype jsval = JNull | JUndefined | JBool bool | JNum int | JStr string

fun truthy :: "jsval \<Rightarrow> bool" where
  "truthy JNull = False"
| "truthy JUndefined = False"
| "truthy (JBool b) = b"
| "truthy (JNum n) = (n \<noteq> 0)"
| "truthy (JStr s) = (s \<noteq> [])"

definition strict_neq :: "jsval \<Rightarrow> jsval \<Rightarrow> bool" where
  "strict_neq a b = (a \<noteq> b)"

text \<open>The fields of a person and of an image that the pages read or write.\<close>

record person_rec =
  id_pers :: jsval
  name :: string
  image_count :: int

record image_rec =
  id_img :: jsval
  person_id :: jsval
  has_face :: bool
  is_identified :: bool
  face_count :: int

text \<open>The object \<open>{ page, per_page, total, pages }\<close> held by every paginated page.\<close>

record pagination_rec =
  page :: int
  per_page :: int
  total_pg :: int
  pages :: int

text \<open>\<open>{ ...prev, ...upd }\<close> where \<open>upd\<close> is the server's pagination object.\<close>

definition spread :: "pagination_rec \<Rightarrow> pagination_rec \<Rightarrow> pagination_rec" where
  "spread prev upd =
     prev\<lparr>page := page upd, per_page := per_page upd, total_pg := total_pg upd, pages := pages upd\<rparr>"

section \<open>The world around a page\<close>

text \<open>
  A promise settles either way; the response interceptor of the API module turns every
  failure into an \<open>Error\<close> with a message.
\<close>

datatype 'a response = Resolved 'a | Rejected string

text \<open>
  \<open>Promise.all\<close> of two calls: the pair of results, or a rejection as soon as one of
  them rejects (with both rejected, the model reports the first).
\<close>

fun Promise_all :: "'a response \<Rightarrow> 'b response \<Rightarrow> ('a \<times> 'b) response" where
  "Promise_all (Resolved a) (Resolved b) = Resolved (a, b)"
| "Promise_all (Rejected e) _ = Rejected e"
| "Promise_all (Resolved a) (Rejected e) = Rejected e"

datatype toast = Toast_success string | Toast_error string

datatype request =
    Images_getAll int int string
  | People_getAll "string option"
  | People_getImages string int int
  | People_delete jsval bool
  | Images_delete jsval
  | Images_assign jsval jsval

text \<open>The \<open>page\<close> query parameter a request carries, if it carries one.\<close>

fun request_page :: "request \<Rightarrow> int option" where
  "request_page (Images_getAll p pp f) = Some p"
| "request_page (People_getImages i p pp) = Some p"
| "request_page (People_getAll q) = None"
| "request_page (People_delete i d) = None"
| "request_page (Images_delete i) = None"
| "request_page (Images_assign i p) = None"

datatype error = TypeError

text \<open>
  What a page leaves behind outside its own state: the notifications shown to the user
  (\<open>toast.success\<close>, \<open>toast.error\<close>), the lines written with \<open>console.error\<close>, the
  requests sent to the server, and the routes it navigated to.
\<close>

record env =
  toasts :: "toast list"
  console :: "string list"
  requests :: "request list"
  navigated :: "string list"

text \<open>
  The four \<open>useState\<close> cells shared by AllImages, Unidentified and PersonDetail
  (PersonDetail calls its list of people \<open>allPeople\<close>).
\<close>

record page_view = env +
  images :: "image_rec list"
  people :: "person_rec list"
  loading :: bool
  pagination :: pagination_rec

section \<open>AllImages\<close>

record AllImages_state = page_view +
  filter_st :: string

definition AllImages_fetchData_start :: "AllImages_state \<Rightarrow> AllImages_state" where
  "AllImages_fetchData_start s =
     s\<lparr>loading := True,
       requests := requests s @
         [Images_getAll (page (pagination s)) (per_page (pagination s)) (filter_st s),
          People_getAll None]\<rparr>"

definition AllImages_fetchData_finish ::
  "(image_rec list \<times> pagination_rec) response \<Rightarrow> person_rec list response \<Rightarrow>
   AllImages_state \<Rightarrow> AllImages_state" where
  "AllImages_fetchData_finish imagesRes peopleRes s =
     (case Promise_all imagesRes peopleRes of
        Resolved ((data, pg), ppl) \<Rightarrow>
          s\<lparr>images := data, people := ppl, pagination := spread (pagination s) pg\<rparr>
      | Rejected e \<Rightarrow>
          s\<lparr>console := console s @ [''Failed to fetch images: '' @ e]\<rparr>)
     \<lparr>loading := False\<rparr>"

definition AllImages_fetchData ::
  "(image_rec list \<times> pagination_rec) response \<Rightarrow> person_rec list response \<Rightarrow>
   AllImages_state \<Rightarrow> AllImages_state" where
  "AllImages_fetchData imagesRes peopleRes s =
     AllImages_fetchData_finish imagesRes peopleRes (AllImages_fetchData_start s)"

definition AllImages_handleDelete :: "jsval \<Rightarrow> AllImages_state \<Rightarrow> AllImages_state" where
  "AllImages_handleDelete imageId s =
     s\<lparr>images := filter (\<lambda>img. strict_neq (id_img img) imageId) (images s),
       pagination := (pagination s)\<lparr>total_pg := total_pg (pagination s) - 1\<rparr>\<rparr>"


text \<open>
  \<open>useEffect(() => { fetchData(); }, [pagination.page, filter])\<close>: after a render the
  effect runs again when one of the two dependencies differs from the render before.
\<close>

definition AllImages_deps :: "AllImages_state \<Rightarrow> int \<times> string" where
  "AllImages_deps s = (page (pagination s), filter_st s)"

definition AllImages_useEffect :: "int \<times> string \<Rightarrow> AllImages_state \<Rightarrow> AllImages_state" where
  "AllImages_useEffect prev_deps s =
     (if AllImages_deps s = prev_deps then s else AllImages_fetchData_start s)"

text \<open>The click handler of a filter button, and the click followed by the render it causes.\<close>

definition AllImages_filter_onClick :: "string \<Rightarrow> AllImages_state \<Rightarrow> AllImages_state" where
  "AllImages_filter_onClick v s = s\<lparr>pagination := (pagination s)\<lparr>page := 1\<rparr>, filter_st := v\<rparr>"

definition AllImages_select_filter :: "string \<Rightarrow> AllImages_state \<Rightarrow> AllImages_state" where
  "AllImages_select_filter v s =
     AllImages_useEffect (AllImages_deps s) (AllImages_filter_onClick v s)"

section \<open>Unidentified\<close>

definition Unidentified_fetchData_start :: "page_view \<Rightarrow> page_view" where
  "Unidentified_fetchData_start s =
     s\<lparr>loading := True,
       requests := requests s @
         [Images_getAll (page (pagination s)) (per_page (pagination s)) ''unidentified'',
          People_getAll None]\<rparr>"

definition Unidentified_fetchData_finish ::
  "(image_rec list \<times> pagination_rec) response \<Rightarrow> person_rec list response \<Rightarrow>
   page_view \<Rightarrow> page_view" where
  "Unidentified_fetchData_finish imagesRes peopleRes s =
     (case Promise_all imagesRes peopleRes of
        Resolved ((data, pg), ppl) \<Rightarrow>
          s\<lparr>images := data, people := ppl, pagination := spread (pagination s) pg\<rparr>
      | Rejected e \<Rightarrow>
          s\<lparr>console := console s @ [''Failed to fetch images: '' @ e]\<rparr>)
     \<lparr>loading := False\<rparr>"

definition Unidentified_fetchData ::
  "(image_rec list \<times> pagination_rec) response \<Rightarrow> person_rec list response \<Rightarrow>
   page_view \<Rightarrow> page_view" where
  "Unidentified_fetchData imagesRes peopleRes s =
     Unidentified_fetchData_finish imagesRes peopleRes (Unidentified_fetchData_start s)"

definition Unidentified_handleDelete :: "jsval \<Rightarrow> page_view \<Rightarrow> page_view" where
  "Unidentified_handleDelete imageId s =
     s\<lparr>images := filter (\<lambda>img. strict_neq (id_img img) imageId) (images s),
       pagination := (pagination s)\<lparr>total_pg := total_pg (pagination s) - 1\<rparr>\<rparr>"

definition Unidentified_handleAssign :: "jsval \<Rightarrow> jsval \<Rightarrow> page_view \<Rightarrow> page_view" where
  "Unidentified_handleAssign imageId personId s =
     (if truthy personId
      then s\<lparr>images := filter (\<lambda>img. strict_neq (id_img img) imageId) (images s),
             pagination := (pagination s)\<lparr>total_pg := total_pg (pagination s) - 1\<rparr>\<rparr>
      else s)"

section \<open>PersonDetail\<close>

text \<open>
  \<open>route_id\<close> is the \<open>id\<close> of \<open>useParams\<close>, a string. \<open>person\<close> starts as \<open>null\<close>;
  an updater that reads \<open>prev.image_count\<close> of \<open>null\<close> throws a \<open>TypeError\<close> when
  React runs it.
\<close>

record PersonDetail_state = page_view +
  person :: "person_rec option"
  route_id :: string

definition PersonDetail_fetchData_start :: "PersonDetail_state \<Rightarrow> PersonDetail_state" where
  "PersonDetail_fetchData_start s =
     s\<lparr>loading := True,
       requests := requests s @
         [People_getImages (route_id s) (page (pagination s)) (per_page (pagination s)),
          People_getAll None]\<rparr>"

definition PersonDetail_fetchData_finish ::
  "(person_rec option \<times> image_rec list \<times> pagination_rec) response \<Rightarrow> person_rec list response \<Rightarrow>
   PersonDetail_state \<Rightarrow> PersonDetail_state" where
  "PersonDetail_fetchData_finish imagesRes peopleRes s =
     (case Promise_all imagesRes peopleRes of
        Resolved ((p, data, pg), ppl) \<Rightarrow>
          s\<lparr>images := data, people := ppl, pagination := spread (pagination s) pg, person := p\<rparr>
      | Rejected e \<Rightarrow>
          s\<lparr>toasts := toasts s @ [Toast_error ''Failed to load person''],
            navigated := navigated s @ [''/people'']\<rparr>)
     \<lparr>loading := False\<rparr>"

definition PersonDetail_fetchData ::
  "(person_rec option \<times> image_rec list \<times> pagination_rec) response \<Rightarrow> person_rec list response \<Rightarrow>
   PersonDetail_state \<Rightarrow> PersonDetail_state" where
  "PersonDetail_fetchData imagesRes peopleRes s =
     PersonDetail_fetchData_finish imagesRes peopleRes (PersonDetail_fetchData_start s)"

definition PersonDetail_handleImageDelete ::
  "jsval \<Rightarrow> PersonDetail_state \<Rightarrow> error + PersonDetail_state" where
  "PersonDetail_handleImageDelete imageId s =
     (case person s of
        None \<Rightarrow> Inl TypeError
      | Some p \<Rightarrow>
          Inr (s\<lparr>images := filter (\<lambda>img. strict_neq (id_img img) imageId) (images s),
                 pagination := (pagination s)\<lparr>total_pg := total_pg (pagination s) - 1\<rparr>,
                 person := Some (p\<lparr>image_count := image_count p - 1\<rparr>)\<rparr>))"

definition PersonDetail_handleImageAssign ::
  "jsval \<Rightarrow> jsval \<Rightarrow> PersonDetail_state \<Rightarrow> error + PersonDetail_state" where
  "PersonDetail_handleImageAssign imageId personId s =
     (if strict_neq personId (JStr (route_id s))
      then (case person s of
              None \<Rightarrow> Inl TypeError
            | Some p \<Rightarrow>
                Inr (s\<lparr>images := filter (\<lambda>img. strict_neq (id_img img) imageId) (images s),
                       pagination := (pagination s)\<lparr>total_pg := total_pg (pagination s) - 1\<rparr>,
                       person := Some (p\<lparr>image_count := image_count p - 1\<rparr>)\<rparr>))
      else Inr s)"

text \<open>\<open>useEffect(() => { fetchData(); }, [id, pagination.page])\<close>.\<close>

definition PersonDetail_deps :: "PersonDetail_state \<Rightarrow> string \<times> int" where
  "PersonDetail_deps s = (route_id s, page (pagination s))"

definition PersonDetail_useEffect :: "string \<times> int \<Rightarrow> PersonDetail_state \<Rightarrow> PersonDetail_state" where
  "PersonDetail_useEffect prev_deps s =
     (if PersonDetail_deps s = prev_deps then s else PersonDetail_fetchData_start s)"

section \<open>People\<close>

text \<open>
  The People page holds no pagination. Its cells \<open>people\<close> and \<open>loading\<close> are named
  \<open>people_P\<close> and \<open>loading_P\<close> here, apart from those of the paginated pages.
\<close>

record People_state = env +
  people_P :: "person_rec list"
  loading_P :: bool
  search :: string

definition People_fetchPeople_start :: "People_state \<Rightarrow> People_state" where
  "People_fetchPeople_start s = s\<lparr>requests := requests s @ [People_getAll (Some (search s))]\<rparr>"

definition People_fetchPeople_finish :: "person_rec list response \<Rightarrow> People_state \<Rightarrow> People_state" where
  "People_fetchPeople_finish res s =
     (case res of
        Resolved data \<Rightarrow> s\<lparr>people_P := data\<rparr>
      | Rejected e \<Rightarrow> s\<lparr>toasts := toasts s @ [Toast_error ''Failed to fetch people'']\<rparr>)
     \<lparr>loading_P := False\<rparr>"

definition People_fetchPeople :: "person_rec list response \<Rightarrow> People_state \<Rightarrow> People_state" where
  "People_fetchPeople res s = People_fetchPeople_finish res (People_fetchPeople_start s)"

text \<open>\<open>useEffect(() => { fetchPeople(); }, [search])\<close> and the search box's \<open>onChange\<close>.\<close>

definition People_useEffect :: "string \<Rightarrow> People_state \<Rightarrow> People_state" where
  "People_useEffect prev_search s =
     (if search s = prev_search then s else People_fetchPeople_start s)"

definition People_search_onChange :: "string \<Rightarrow> People_state \<Rightarrow> People_state" where
  "People_search_onChange v s = People_useEffect (search s) (s\<lparr>search := v\<rparr>)"

definition People_handleDelete :: "jsval \<Rightarrow> People_state \<Rightarrow> People_state" where
  "People_handleDelete personId s =
     s\<lparr>people_P := filter (\<lambda>p. strict_neq (id_pers p) personId) (people_P s)\<rparr>"

section \<open>ImageCard\<close>

text \<open>
  The card owns four flags and is handed the page's \<open>onDelete\<close> and \<open>onAssign\<close>, either
  of which may be missing. A callback is a transition of the page's state; it yields an
  error where an updater it queues throws. Each handler is split at its \<open>await\<close>: the
  part that runs at once, and the part that runs when the server has answered.
\<close>

record card_state =
  isDeleting :: bool
  isAssigning :: bool
  isReprocessing :: bool
  showDeleteModal :: bool

definition ImageCard_handleDelete_start ::
  "image_rec \<Rightarrow> card_state \<times> 'a env_scheme \<Rightarrow> card_state \<times> 'a env_scheme" where
  "ImageCard_handleDelete_start img w =
     (case w of (c, s) \<Rightarrow>
        (c\<lparr>isDeleting := True\<rparr>, s\<lparr>requests := requests s @ [Images_delete (id_img img)]\<rparr>))"

definition ImageCard_handleDelete_finish ::
  "unit response \<Rightarrow> (jsval \<Rightarrow> 'a env_scheme \<Rightarrow> error + 'a env_scheme) option \<Rightarrow> image_rec \<Rightarrow>
   card_state \<times> 'a env_scheme \<Rightarrow> error + card_state \<times> 'a env_scheme" where
  "ImageCard_handleDelete_finish res onDelete img w =
     (case w of (c, s) \<Rightarrow>
        (case res of
           Resolved u \<Rightarrow>
             (let s1 = s\<lparr>toasts := toasts s @ [Toast_success ''Image deleted'']\<rparr>;
                  c1 = c\<lparr>showDeleteModal := False\<rparr>
              in case onDelete of
                   None \<Rightarrow> Inr (c1\<lparr>isDeleting := False\<rparr>, s1)
                 | Some f \<Rightarrow>
                     (case f (id_img img) s1 of
                        Inl e \<Rightarrow> Inl e
                      | Inr s2 \<Rightarrow> Inr (c1\<lparr>isDeleting := False\<rparr>, s2)))
         | Rejected msg \<Rightarrow>
             Inr (c\<lparr>isDeleting := False\<rparr>, s\<lparr>toasts := toasts s @ [Toast_error msg]\<rparr>)))"

definition ImageCard_handleDelete ::
  "unit response \<Rightarrow> (jsval \<Rightarrow> 'a env_scheme \<Rightarrow> error + 'a env_scheme) option \<Rightarrow> image_rec \<Rightarrow>
   card_state \<times> 'a env_scheme \<Rightarrow> error + card_state \<times> 'a env_scheme" where
  "ImageCard_handleDelete res onDelete img w =
     ImageCard_handleDelete_finish res onDelete img (ImageCard_handleDelete_start img w)"

definition ImageCard_handleAssign_start ::
  "image_rec \<Rightarrow> jsval \<Rightarrow> card_state \<times> 'a env_scheme \<Rightarrow> card_state \<times> 'a env_scheme" where
  "ImageCard_handleAssign_start img personId w =
     (case w of (c, s) \<Rightarrow>
        (c\<lparr>isAssigning := True\<rparr>,
         s\<lparr>requests := requests s @ [Images_assign (id_img img) personId]\<rparr>))"

definition ImageCard_handleAssign_finish ::
  "unit response \<Rightarrow> (jsval \<Rightarrow> jsval \<Rightarrow> 'a env_scheme \<Rightarrow> error + 'a env_scheme) option \<Rightarrow>
   image_rec \<Rightarrow> jsval \<Rightarrow> card_state \<times> 'a env_scheme \<Rightarrow> error + card_state \<times> 'a env_scheme" where
  "ImageCard_handleAssign_finish res onAssign img personId w =
     (case w of (c, s) \<Rightarrow>
        (case res of
           Resolved u \<Rightarrow>
             (let s1 = s\<lparr>toasts := toasts s @
                          [Toast_success (if truthy personId then ''Image assigned''
                                          else ''Image unassigned'')]\<rparr>
              in case onAssign of
                   None \<Rightarrow> Inr (c\<lparr>isAssigning := False\<rparr>, s1)
                 | Some f \<Rightarrow>
                     (case f (id_img img) personId s1 of
                        Inl e \<Rightarrow> Inl e
                      | Inr s2 \<Rightarrow> Inr (c\<lparr>isAssigning := False\<rparr>, s2)))
         | Rejected msg \<Rightarrow>
             Inr (c\<lparr>isAssigning := False\<rparr>, s\<lparr>toasts := toasts s @ [Toast_error msg]\<rparr>)))"

definition ImageCard_handleAssign ::
  "unit response \<Rightarrow> (jsval \<Rightarrow> jsval \<Rightarrow> 'a env_scheme \<Rightarrow> error + 'a env_scheme) option \<Rightarrow>
   image_rec \<Rightarrow> jsval \<Rightarrow> card_state \<times> 'a env_scheme \<Rightarrow> error + card_state \<times> 'a env_scheme" where
  "ImageCard_handleAssign res onAssign img personId w =
     ImageCard_handleAssign_finish res onAssign img personId
       (ImageCard_handleAssign_start img personId w)"

section \<open>PersonCard\<close>

text \<open>
  The card of a person on the People page. Its cell \<open>isDeleting\<close> says whether the
  confirmation dialog is open and is named \<open>isDeleting_P\<close> here, apart from the flag
  of the image card.
\<close>

record person_card_state =
  isEditing :: bool
  isDeleting_P :: bool
  editName :: string
  deleteImages :: bool

definition PersonCard_handleDelete_start ::
  "person_rec \<Rightarrow> person_card_state \<times> 'a env_scheme \<Rightarrow> person_card_state \<times> 'a env_scheme" where
  "PersonCard_handleDelete_start pers w =
     (case w of (c, s) \<Rightarrow>
        (c, s\<lparr>requests := requests s @ [People_delete (id_pers pers) (deleteImages c)]\<rparr>))"

definition PersonCard_handleDelete_finish ::
  "unit response \<Rightarrow> (jsval \<Rightarrow> 'a env_scheme \<Rightarrow> error + 'a env_scheme) option \<Rightarrow> person_rec \<Rightarrow>
   person_card_state \<times> 'a env_scheme \<Rightarrow> error + person_card_state \<times> 'a env_scheme" where
  "PersonCard_handleDelete_finish res onDelete pers w =
     (case w of (c, s) \<Rightarrow>
        (case res of
           Resolved u \<Rightarrow>
             (let s1 = s\<lparr>toasts := toasts s @ [Toast_success ''Person deleted'']\<rparr>;
                  c1 = c\<lparr>isDeleting_P := False\<rparr>
              in case onDelete of
                   None \<Rightarrow> Inr (c1, s1)
                 | Some f \<Rightarrow>
                     (case f (id_pers pers) s1 of
                        Inl e \<Rightarrow> Inl e
                      | Inr s2 \<Rightarrow> Inr (c1, s2)))
         | Rejected msg \<Rightarrow>
             Inr (c, s\<lparr>toasts := toasts s @ [Toast_error msg]\<rparr>)))"

definition PersonCard_handleDelete ::
  "unit response \<Rightarrow> (jsval \<Rightarrow> 'a env_scheme \<Rightarrow> error + 'a env_scheme) option \<Rightarrow> person_rec \<Rightarrow>
   person_card_state \<times> 'a env_scheme \<Rightarrow> error + person_card_state \<times> 'a env_scheme" where
  "PersonCard_handleDelete res onDelete pers w =
     PersonCard_handleDelete_finish res onDelete pers (PersonCard_handleDelete_start pers w)"

section \<open>The spec's reading of two operations\<close>

text \<open>
  Two definitions that follow the specification's words, for comparison with the pages:
  the number of pages as \<open>ceil(totalCount / pageSize)\<close>, and a reassignment that
  rewrites the owner of the one item in place.
\<close>

definition spec_totalPages :: "int \<Rightarrow> int \<Rightarrow> int" where
  "spec_totalPages totalCount pageSize = (totalCount + pageSize - 1) div pageSize"


section \<open>Sample states\<close>

definition sample_image :: "int \<Rightarrow> image_rec" where
  "sample_image n =
     \<lparr>id_img = JNum n, person_id = JNull, has_face = True, is_identified = False, face_count = 1\<rparr>"

definition sample_person :: "int \<Rightarrow> string \<Rightarrow> int \<Rightarrow> person_rec" where
  "sample_person n nm k = \<lparr>id_pers = JNum n, name = nm, image_count = k\<rparr>"

text \<open>AllImages on page 2 of 2 under the filter \<open>all\<close>, holding the last image of 31.\<close>

definition sample_AllImages :: AllImages_state where
  "sample_AllImages =
     \<lparr>toasts = [], console = [], requests = [], navigated = [],
      images = [sample_image 31], people = [sample_person 7 ''Ann'' 10], loading = False,
      pagination = \<lparr>page = 2, per_page = 30, total_pg = 31, pages = 2\<rparr>,
      filter_st = ''all''\<rparr>"

text \<open>Unidentified holding five images.\<close>

definition sample_Unidentified :: page_view where
  "sample_Unidentified =
     \<lparr>toasts = [], console = [], requests = [], navigated = [],
      images = map sample_image [1, 2, 3, 4, 5], people = [sample_person 7 ''Ann'' 10],
      loading = False,
      pagination = \<lparr>page = 1, per_page = 30, total_pg = 5, pages = 1\<rparr>\<rparr>"

text \<open>PersonDetail at the route \<open>/people/7\<close>, whose person has ten images.\<close>

definition sample_PersonDetail :: PersonDetail_state where
  "sample_PersonDetail =
     \<lparr>toasts = [], console = [], requests = [], navigated = [],
      images = map (\<lambda>n. (sample_image n)\<lparr>person_id := JNum 7, is_identified := True\<rparr>)
                 [1, 2, 3, 4, 5, 6, 7, 8, 9, 10],
      people = [sample_person 7 ''Ann'' 10, sample_person 8 ''Bob'' 0], loading = False,
      pagination = \<lparr>page = 1, per_page = 30, total_pg = 10, pages = 1\<rparr>,
      person = Some (sample_person 7 ''Ann'' 10), route_id = ''7''\<rparr>"

text \<open>People with an empty search box.\<close>

definition sample_People :: People_state where
  "sample_People =
     \<lparr>toasts = [], console = [], requests = [], navigated = [],
      people_P = [sample_person 7 ''Ann'' 10, sample_person 8 ''Bob'' 0], loading_P = False,
      search = []\<rparr>"

definition sample_card :: card_state where
  "sample_card =
     \<lparr>isDeleting = False, isAssigning = False, isReprocessing = False, showDeleteModal = True\<rparr>"

definition sample_person_card :: person_card_state where
  "sample_person_card =
     \<lparr>isEditing = False, isDeleting_P = True, editName = ''Ann'', deleteImages = False\<rparr>"

section \<open>Lists of held items\<close>


lemma filter_absent_id:
  "i \<notin> id_img ` set xs \<Longrightarrow> filter (\<lambda>img. strict_neq (id_img img) i) xs = xs"
  by (induction xs) (auto simp: strict_neq_def)

lemma length_filter_in:
  "distinct (map f xs) \<Longrightarrow> length (filter (\<lambda>x. f x \<in> A) xs) = card (A \<inter> f ` set xs)"
proof (induction xs)
  case Nil
  then show ?case by simp
next
  case (Cons x xs)
  then have "f x \<notin> f ` set xs" by simp
  with Cons show ?case by (simp add: Int_insert_right)
qed

lemma length_filter_removed:
  assumes "distinct (map f xs)" "distinct ids" "set ids \<subseteq> f ` set xs"
  shows "length (filter (\<lambda>x. f x \<notin> set ids) xs) = length xs - length ids"
proof -
  have "length (filter (\<lambda>x. f x \<in> set ids) xs) = card (set ids \<inter> f ` set xs)"
    using assms(1) by (rule length_filter_in)
  also have "set ids \<inter> f ` set xs = set ids"
    using assms(3) by blast
  also have "card (set ids) = length ids"
    using assms(2) by (rule distinct_card)
  finally have kept: "length (filter (\<lambda>x. f x \<in> set ids) xs) = length ids" .
  have "length (filter (\<lambda>x. f x \<in> set ids) xs) + length (filter (\<lambda>x. \<not> f x \<in> set ids) xs)
        = length xs"
    by (rule sum_length_filter_compl)
  with kept show ?thesis by simp
qed

lemma length_filter_one:
  assumes "distinct (map f xs)" "i \<in> f ` set xs"
  shows "length (filter (\<lambda>x. f x \<noteq> i) xs) = length xs - 1"
  using length_filter_removed [of f xs "[i]"] assms by simp

section \<open>Repeated deletion\<close>

lemma images_fold_AllImages_handleDelete:
  "images (fold AllImages_handleDelete ids s) = filter (\<lambda>img. id_img img \<notin> set ids) (images s)"
  by (induction ids arbitrary: s)
     (auto simp: AllImages_handleDelete_def strict_neq_def intro: filter_cong)

lemma total_fold_AllImages_handleDelete:
  "total_pg (pagination (fold AllImages_handleDelete ids s))
   = total_pg (pagination s) - int (length ids)"
  by (induction ids arbitrary: s) (auto simp: AllImages_handleDelete_def)

lemma images_fold_Unidentified_handleDelete:
  "images (fold Unidentified_handleDelete ids s) = filter (\<lambda>img. id_img img \<notin> set ids) (images s)"
  by (induction ids arbitrary: s)
     (auto simp: Unidentified_handleDelete_def strict_neq_def intro: filter_cong)

lemma total_fold_Unidentified_handleDelete:
  "total_pg (pagination (fold Unidentified_handleDelete ids s))
   = total_pg (pagination s) - int (length ids)"
  by (induction ids arbitrary: s) (auto simp: Unidentified_handleDelete_def)

section \<open>The handlers of the cards, by the server's answer\<close>

lemma ImageCard_handleDelete_rejected:
  "ImageCard_handleDelete (Rejected msg) onDelete img (c, s)
   = Inr (c\<lparr>isDeleting := False\<rparr>,
          s\<lparr>requests := requests s @ [Images_delete (id_img img)],
            toasts := toasts s @ [Toast_error msg]\<rparr>)"
  by (simp add: ImageCard_handleDelete_def ImageCard_handleDelete_start_def
        ImageCard_handleDelete_finish_def)

lemma ImageCard_handleDelete_resolved:
  "ImageCard_handleDelete (Resolved u) (Some f) img (c, s)
   = (case f (id_img img)
             (s\<lparr>requests := requests s @ [Images_delete (id_img img)],
                toasts := toasts s @ [Toast_success ''Image deleted'']\<rparr>) of
        Inl e \<Rightarrow> Inl e
      | Inr s2 \<Rightarrow> Inr (c\<lparr>isDeleting := False, showDeleteModal := False\<rparr>, s2))"
  by (simp add: ImageCard_handleDelete_def ImageCard_handleDelete_start_def
        ImageCard_handleDelete_finish_def split: sum.split)

lemma ImageCard_handleAssign_rejected:
  "ImageCard_handleAssign (Rejected msg) onAssign img personId (c, s)
   = Inr (c\<lparr>isAssigning := False\<rparr>,
          s\<lparr>requests := requests s @ [Images_assign (id_img img) personId],
            toasts := toasts s @ [Toast_error msg]\<rparr>)"
  by (simp add: ImageCard_handleAssign_def ImageCard_handleAssign_start_def
        ImageCard_handleAssign_finish_def)

lemma ImageCard_handleAssign_resolved:
  "ImageCard_handleAssign (Resolved u) (Some g) img personId (c, s)
   = (case g (id_img img) personId
             (s\<lparr>requests := requests s @ [Images_assign (id_img img) personId],
                toasts := toasts s @ [Toast_success (if truthy personId then ''Image assigned''
                                                     else ''Image unassigned'')]\<rparr>) of
        Inl e \<Rightarrow> Inl e
      | Inr s2 \<Rightarrow> Inr (c\<lparr>isAssigning := False\<rparr>, s2))"
  by (simp add: ImageCard_handleAssign_def ImageCard_handleAssign_start_def
        ImageCard_handleAssign_finish_def split: sum.split)

lemma PersonCard_handleDelete_rejected:
  "PersonCard_handleDelete (Rejected msg) onDelete pers (c, s)
   = Inr (c, s\<lparr>requests := requests s @ [People_delete (id_pers pers) (deleteImages c)],
               toasts := toasts s @ [Toast_error msg]\<rparr>)"
  by (simp add: PersonCard_handleDelete_def PersonCard_handleDelete_start_def
        PersonCard_handleDelete_finish_def)

lemma PersonCard_handleDelete_resolved:
  "PersonCard_handleDelete (Resolved u) (Some f) pers (c, s)
   = (case f (id_pers pers)
             (s\<lparr>requests := requests s @ [People_delete (id_pers pers) (deleteImages c)],
                toasts := toasts s @ [Toast_success ''Person deleted'']\<rparr>) of
        Inl e \<Rightarrow> Inl e
      | Inr s2 \<Rightarrow> Inr (c\<lparr>isDeleting_P := False\<rparr>, s2))"
  by (simp add: PersonCard_handleDelete_def PersonCard_handleDelete_start_def
        PersonCard_handleDelete_finish_def split: sum.split)

section \<open>Loads that fail\<close>

lemma AllImages_fetchData_rejected:
  assumes "Promise_all imagesRes peopleRes = Rejected e"
  shows "AllImages_fetchData imagesRes peopleRes s
         = s\<lparr>console := console s @ [''Failed to fetch images: '' @ e],
             requests := requests s @
               [Images_getAll (page (pagination s)) (per_page (pagination s)) (filter_st s),
                People_getAll None],
             loading := False\<rparr>"
  using assms
  by (simp add: AllImages_fetchData_def AllImages_fetchData_start_def AllImages_fetchData_finish_def)

lemma Unidentified_fetchData_rejected:
  assumes "Promise_all imagesRes peopleRes = Rejected e"
  shows "Unidentified_fetchData imagesRes peopleRes s
         = s\<lparr>console := console s @ [''Failed to fetch images: '' @ e],
             requests := requests s @
               [Images_getAll (page (pagination s)) (per_page (pagination s)) ''unidentified'',
                People_getAll None],
             loading := False\<rparr>"
  using assms
  by (simp add: Unidentified_fetchData_def Unidentified_fetchData_start_def
        Unidentified_fetchData_finish_def)

lemma People_fetchPeople_rejected:
  "People_fetchPeople (Rejected e) s
   = s\<lparr>toasts := toasts s @ [Toast_error ''Failed to fetch people''],
       requests := requests s @ [People_getAll (Some (search s))],
       loading_P := False\<rparr>"
  by (simp add: People_fetchPeople_def People_fetchPeople_start_def People_fetchPeople_finish_def)

lemma PersonDetail_fetchData_rejected:
  assumes "Promise_all imagesRes peopleRes = Rejected e"
  shows "PersonDetail_fetchData imagesRes peopleRes s
         = s\<lparr>toasts := toasts s @ [Toast_error ''Failed to load person''],
             requests := requests s @
               [People_getImages (route_id s) (page (pagination s)) (per_page (pagination s)),
                People_getAll None],
             navigated := navigated s @ [''/people''],
             loading := False\<rparr>"
  using assms
  by (simp add: PersonDetail_fetchData_def PersonDetail_fetchData_start_def
        PersonDetail_fetchData_finish_def)

text \<open>
  Whichever of the two calls rejects, a failed load leaves the held items and the
  pagination of every paginated page as they were.
\<close>

lemma failed_load_keeps_held_state:
  assumes "Promise_all imagesRes peopleRes = Rejected e"
  shows "images (AllImages_fetchData imagesRes peopleRes s) = images s"
    and "pagination (AllImages_fetchData imagesRes peopleRes s) = pagination s"
    and "images (Unidentified_fetchData imagesRes peopleRes u) = images u"
    and "pagination (Unidentified_fetchData imagesRes peopleRes u) = pagination u"
  using assms by (simp_all add: AllImages_fetchData_rejected Unidentified_fetchData_rejected)

section \<open>Reassignment in the scoped pages\<close>

text \<open>
  For a new owner whose id passes the page's test \<open>if (personId)\<close>, \<open>handleAssign\<close> of
  Unidentified does what \<open>handleDelete\<close> does: the item with that id leaves the held items
  and the total drops by one. In PersonDetail, \<open>handleImageAssign\<close> with a new owner other
  than the person of the route does what \<open>handleImageDelete\<close> does; with a person held,
  the item leaves the held items and the total drops by one.
\<close>

lemma scoped_reassign_removes:
  "(truthy personId \<longrightarrow>
      Unidentified_handleAssign imageId personId u = Unidentified_handleDelete imageId u
      \<and> images (Unidentified_handleAssign imageId personId u)
          = filter (\<lambda>img. id_img img \<noteq> imageId) (images u)
      \<and> total_pg (pagination (Unidentified_handleAssign imageId personId u))
          = total_pg (pagination u) - 1)
   \<and> (personId \<noteq> JStr (route_id t) \<longrightarrow>
      PersonDetail_handleImageAssign imageId personId t = PersonDetail_handleImageDelete imageId t)
   \<and> (personId \<noteq> JStr (route_id t) \<and> person t = Some p \<longrightarrow>
      (case PersonDetail_handleImageAssign imageId personId t of
         Inl e \<Rightarrow> False
       | Inr t' \<Rightarrow>
           images t' = filter (\<lambda>img. id_img img \<noteq> imageId) (images t)
         \<and> total_pg (pagination t') = total_pg (pagination t) - 1))"
  by (simp add: Unidentified_handleAssign_def Unidentified_handleDelete_def
        PersonDetail_handleImageAssign_def PersonDetail_handleImageDelete_def strict_neq_def)

text \<open>
  Five unidentified images; image 3 goes to person 8: four items, total 4. Ten images of
  person 7; image 3 goes to person 8: nine items, total 9.
\<close>

lemma scoped_reassign_removes_example:
  "truthy (JNum 8)
   \<and> length (images sample_Unidentified) = 5
   \<and> images (Unidentified_handleAssign (JNum 3) (JNum 8) sample_Unidentified)
       = map sample_image [1, 2, 4, 5]
   \<and> total_pg (pagination (Unidentified_handleAssign (JNum 3) (JNum 8) sample_Unidentified)) = 4
   \<and> Unidentified_handleAssign (JNum 3) (JNum 8) sample_Unidentified
       = Unidentified_handleDelete (JNum 3) sample_Unidentified
   \<and> JNum 8 \<noteq> JStr (route_id sample_PersonDetail)
   \<and> person sample_PersonDetail = Some (sample_person 7 ''Ann'' 10)
   \<and> PersonDetail_handleImageAssign (JNum 3) (JNum 8) sample_PersonDetail
       = PersonDetail_handleImageDelete (JNum 3) sample_PersonDetail
   \<and> (case PersonDetail_handleImageAssign (JNum 3) (JNum 8) sample_PersonDetail of
         Inl e \<Rightarrow> False
       | Inr t' \<Rightarrow>
           map id_img (images t') = map JNum [1, 2, 4, 5, 6, 7, 8, 9, 10]
         \<and> total_pg (pagination t') = 9)"
  using scoped_reassign_removes
          [of "JNum 8" "JNum 3" sample_Unidentified sample_PersonDetail
              "sample_person 7 ''Ann'' 10"]
  by (simp add: Unidentified_handleAssign_def Unidentified_handleDelete_def
        PersonDetail_handleImageAssign_def PersonDetail_handleImageDelete_def strict_neq_def
        sample_Unidentified_def sample_PersonDetail_def sample_image_def)

section \<open>Claims\<close>

text \<open>
  C1, as the pages have it. \<open>handleDelete\<close> is idempotent on the held items only: a
  second call with the same id leaves the items of the first call, and a call with an id
  that is not held leaves the items as they are. The total is lowered by one on every
  call, held id or not, so two calls lower it by two.
\<close>

theorem removeItem_idempotent_on_items:
  "images (AllImages_handleDelete i (AllImages_handleDelete i s)) = images (AllImages_handleDelete i s)
   \<and> total_pg (pagination (AllImages_handleDelete i (AllImages_handleDelete i s)))
       = total_pg (pagination s) - 2
   \<and> total_pg (pagination (AllImages_handleDelete i s)) = total_pg (pagination s) - 1
   \<and> (i \<notin> id_img ` set (images s) \<longrightarrow> images (AllImages_handleDelete i s) = images s)
   \<and> images (Unidentified_handleDelete i (Unidentified_handleDelete i u))
       = images (Unidentified_handleDelete i u)
   \<and> total_pg (pagination (Unidentified_handleDelete i (Unidentified_handleDelete i u)))
       = total_pg (pagination u) - 2
   \<and> total_pg (pagination (Unidentified_handleDelete i u)) = total_pg (pagination u) - 1
   \<and> (i \<notin> id_img ` set (images u) \<longrightarrow> images (Unidentified_handleDelete i u) = images u)"
  by (simp add: AllImages_handleDelete_def Unidentified_handleDelete_def filter_absent_id)

theorem removeItem_idempotent_on_items_witness:
  "JNum 99 \<notin> id_img ` set (images sample_AllImages)
   \<and> images (AllImages_handleDelete (JNum 99) sample_AllImages) = images sample_AllImages
   \<and> total_pg (pagination (AllImages_handleDelete (JNum 99) sample_AllImages)) = 30
   \<and> JNum 99 \<notin> id_img ` set (images sample_Unidentified)
   \<and> images (Unidentified_handleDelete (JNum 99) sample_Unidentified) = images sample_Unidentified"
  using removeItem_idempotent_on_items [of "JNum 99" sample_AllImages sample_Unidentified]
  by (simp add: sample_AllImages_def sample_Unidentified_def sample_image_def)

text \<open>
  C1 as stated fails on the total: deleting image 31 twice does not leave the total of
  deleting it once, and deleting the id 99, which is not held, changes the total.
\<close>

theorem removeItem_total_counterexample:
  "\<not> (images (AllImages_handleDelete (JNum 31) (AllImages_handleDelete (JNum 31) sample_AllImages))
        = images (AllImages_handleDelete (JNum 31) sample_AllImages)
      \<and> total_pg (pagination
            (AllImages_handleDelete (JNum 31) (AllImages_handleDelete (JNum 31) sample_AllImages)))
        = total_pg (pagination (AllImages_handleDelete (JNum 31) sample_AllImages)))
   \<and> JNum 99 \<notin> id_img ` set (images sample_AllImages)
   \<and> total_pg (pagination (AllImages_handleDelete (JNum 99) sample_AllImages))
        \<noteq> total_pg (pagination sample_AllImages)"
  by (simp add: AllImages_handleDelete_def sample_AllImages_def sample_image_def)

text \<open>
  C2. When the server rejects the call, the delete and assign handlers of the image card
  (and the delete handler of the person card) leave the page as it was, held items,
  pagination and all, but for the request sent and one error notification with the
  server's message; the page's callback is not run. When the server accepts, the
  callback is run, after the success notification.
\<close>

theorem failed_mutation_leaves_state:
  fixes s :: "'a page_view_scheme"
  shows
  "ImageCard_handleDelete (Rejected msg) onDelete img (c, s)
     = Inr (c\<lparr>isDeleting := False\<rparr>,
            s\<lparr>requests := requests s @ [Images_delete (id_img img)],
              toasts := toasts s @ [Toast_error msg]\<rparr>)
   \<and> (case ImageCard_handleDelete (Rejected msg) onDelete img (c, s) of
         Inl e \<Rightarrow> False
       | Inr (c', s') \<Rightarrow>
           images s' = images s \<and> pagination s' = pagination s
         \<and> toasts s' = toasts s @ [Toast_error msg])
   \<and> ImageCard_handleDelete (Resolved ()) (Some f) img (c, s)
     = (case f (id_img img)
               (s\<lparr>requests := requests s @ [Images_delete (id_img img)],
                  toasts := toasts s @ [Toast_success ''Image deleted'']\<rparr>) of
          Inl e \<Rightarrow> Inl e
        | Inr s2 \<Rightarrow> Inr (c\<lparr>isDeleting := False, showDeleteModal := False\<rparr>, s2))
   \<and> ImageCard_handleAssign (Rejected msg) onAssign img personId (c, s)
     = Inr (c\<lparr>isAssigning := False\<rparr>,
            s\<lparr>requests := requests s @ [Images_assign (id_img img) personId],
              toasts := toasts s @ [Toast_error msg]\<rparr>)
   \<and> (case ImageCard_handleAssign (Rejected msg) onAssign img personId (c, s) of
         Inl e \<Rightarrow> False
       | Inr (c', s') \<Rightarrow>
           images s' = images s \<and> pagination s' = pagination s
         \<and> toasts s' = toasts s @ [Toast_error msg])
   \<and> ImageCard_handleAssign (Resolved ()) (Some g) img personId (c, s)
     = (case g (id_img img) personId
               (s\<lparr>requests := requests s @ [Images_assign (id_img img) personId],
                  toasts := toasts s @ [Toast_success (if truthy personId then ''Image assigned''
                                                       else ''Image unassigned'')]\<rparr>) of
          Inl e \<Rightarrow> Inl e
        | Inr s2 \<Rightarrow> Inr (c\<lparr>isAssigning := False\<rparr>, s2))
   \<and> PersonCard_handleDelete (Rejected msg) onDeleteP pers (pc, t)
     = Inr (pc, t\<lparr>requests := requests t @ [People_delete (id_pers pers) (deleteImages pc)],
                  toasts := toasts t @ [Toast_error msg]\<rparr>)"
  by (simp add: ImageCard_handleDelete_rejected ImageCard_handleDelete_resolved
        ImageCard_handleAssign_rejected ImageCard_handleAssign_resolved
        PersonCard_handleDelete_rejected)

text \<open>
  In Unidentified with five images: a rejected delete or assign of image 3 keeps the five
  images and the total 5 and shows the error; an accepted delete leaves four. In People,
  a rejected delete of a person keeps the held people.
\<close>

theorem failed_mutation_leaves_state_witness:
  "(case ImageCard_handleDelete (Rejected ''Not found'')
           (Some (\<lambda>i s. Inr (Unidentified_handleDelete i s))) (sample_image 3)
           (sample_card, sample_Unidentified) of
      Inl e \<Rightarrow> False
    | Inr (c', s') \<Rightarrow>
        images s' = map sample_image [1, 2, 3, 4, 5] \<and> total_pg (pagination s') = 5
      \<and> toasts s' = [Toast_error ''Not found''])
   \<and> (case ImageCard_handleAssign (Rejected ''Not found'')
           (Some (\<lambda>i p s. Inr (Unidentified_handleAssign i p s))) (sample_image 3) (JNum 7)
           (sample_card, sample_Unidentified) of
      Inl e \<Rightarrow> False
    | Inr (c', s') \<Rightarrow>
        images s' = map sample_image [1, 2, 3, 4, 5] \<and> total_pg (pagination s') = 5
      \<and> toasts s' = [Toast_error ''Not found''])
   \<and> (case ImageCard_handleDelete (Resolved ())
           (Some (\<lambda>i s. Inr (Unidentified_handleDelete i s))) (sample_image 3)
           (sample_card, sample_Unidentified) of
      Inl e \<Rightarrow> False
    | Inr (c', s') \<Rightarrow>
        images s' = map sample_image [1, 2, 4, 5] \<and> total_pg (pagination s') = 4
      \<and> toasts s' = [Toast_success ''Image deleted''])
   \<and> (case PersonCard_handleDelete (Rejected ''Not found'')
           (Some (\<lambda>i s. Inr (People_handleDelete i s))) (sample_person 8 ''Bob'' 0)
           (sample_person_card, sample_People) of
      Inl e \<Rightarrow> False
    | Inr (c', s') \<Rightarrow>
        people_P s' = people_P sample_People \<and> toasts s' = [Toast_error ''Not found''])"
  using failed_mutation_leaves_state
          [of "''Not found''" "Some (\<lambda>i s. Inr (Unidentified_handleDelete i s))"
              "sample_image 3" sample_card sample_Unidentified
              "\<lambda>i s. Inr (Unidentified_handleDelete i s)"
              "Some (\<lambda>i p s. Inr (Unidentified_handleAssign i p s))" "JNum 7"
              "\<lambda>i p s. Inr (Unidentified_handleAssign i p s)"
              "Some (\<lambda>i s. Inr (People_handleDelete i s))" "sample_person 8 ''Bob'' 0"
              sample_person_card sample_People]
  by (simp add: Unidentified_handleDelete_def strict_neq_def sample_Unidentified_def
        sample_People_def sample_image_def)

text \<open>
  C3, on the pages. A load whose fetch fails leaves the held images and the pagination
  of AllImages as they were, and it shows the user nothing: it writes one line to the
  console, and so does Unidentified. People and PersonDetail show one error
  notification each.
\<close>

theorem load_failure_without_notification:
  "images (AllImages_fetchData (Rejected ''Network Error'') (Resolved []) sample_AllImages)
     = images sample_AllImages
   \<and> pagination (AllImages_fetchData (Rejected ''Network Error'') (Resolved []) sample_AllImages)
     = pagination sample_AllImages
   \<and> toasts (AllImages_fetchData (Rejected ''Network Error'') (Resolved []) sample_AllImages) = []
   \<and> console (AllImages_fetchData (Rejected ''Network Error'') (Resolved []) sample_AllImages)
     = [''Failed to fetch images: Network Error'']
   \<and> toasts (Unidentified_fetchData (Rejected ''Network Error'') (Resolved []) sample_Unidentified)
     = []
   \<and> toasts (People_fetchPeople (Rejected ''Network Error'') sample_People)
     = [Toast_error ''Failed to fetch people'']
   \<and> toasts (PersonDetail_fetchData (Rejected ''Network Error'') (Resolved []) sample_PersonDetail)
     = [Toast_error ''Failed to load person'']"
  by (simp add: AllImages_fetchData_rejected Unidentified_fetchData_rejected
        People_fetchPeople_rejected PersonDetail_fetchData_rejected
        sample_AllImages_def sample_Unidentified_def sample_People_def sample_PersonDetail_def)

text \<open>
  C4. After \<open>handleDelete\<close> has been called once for each of a sequence of distinct ids
  taken from the held items, the held items are the former ones without exactly those
  ids, in their former order, and the total is lower by the number of calls. Where the
  held items carry distinct ids, that many items are gone.
\<close>

theorem removeItem_sequence:
  assumes "distinct ids" and "set ids \<subseteq> id_img ` set (images s)"
    and "distinct ids'" and "set ids' \<subseteq> id_img ` set (images u)"
  shows "images (fold AllImages_handleDelete ids s)
           = filter (\<lambda>img. id_img img \<notin> set ids) (images s)
    \<and> total_pg (pagination (fold AllImages_handleDelete ids s))
           = total_pg (pagination s) - int (length ids)
    \<and> (distinct (map id_img (images s)) \<longrightarrow>
          length (images (fold AllImages_handleDelete ids s)) = length (images s) - length ids)
    \<and> images (fold Unidentified_handleDelete ids' u)
           = filter (\<lambda>img. id_img img \<notin> set ids') (images u)
    \<and> total_pg (pagination (fold Unidentified_handleDelete ids' u))
           = total_pg (pagination u) - int (length ids')
    \<and> (distinct (map id_img (images u)) \<longrightarrow>
          length (images (fold Unidentified_handleDelete ids' u)) = length (images u) - length ids')"
  using assms
  by (simp add: images_fold_AllImages_handleDelete total_fold_AllImages_handleDelete
        images_fold_Unidentified_handleDelete total_fold_Unidentified_handleDelete
        length_filter_removed)

theorem removeItem_sequence_witness:
  "distinct [JNum 31] \<and> set [JNum 31] \<subseteq> id_img ` set (images sample_AllImages)
   \<and> distinct [JNum 4, JNum 2] \<and> set [JNum 4, JNum 2] \<subseteq> id_img ` set (images sample_Unidentified)
   \<and> distinct (map id_img (images sample_AllImages))
   \<and> distinct (map id_img (images sample_Unidentified))
   \<and> images (fold AllImages_handleDelete [JNum 31] sample_AllImages) = []
   \<and> total_pg (pagination (fold AllImages_handleDelete [JNum 31] sample_AllImages)) = 30
   \<and> images (fold Unidentified_handleDelete [JNum 4, JNum 2] sample_Unidentified)
       = map sample_image [1, 3, 5]
   \<and> total_pg (pagination (fold Unidentified_handleDelete [JNum 4, JNum 2] sample_Unidentified)) = 3
   \<and> length (images (fold Unidentified_handleDelete [JNum 4, JNum 2] sample_Unidentified)) = 3"
  using removeItem_sequence [of "[JNum 31]" sample_AllImages "[JNum 4, JNum 2]" sample_Unidentified]
  by (simp add: AllImages_handleDelete_def Unidentified_handleDelete_def strict_neq_def
        sample_AllImages_def sample_Unidentified_def sample_image_def)




text \<open>
  C7, as the pages have it. In AllImages, choosing another filter sets the page to 1 and
  sends exactly one load, with the new filter and page 1. In People, changing the search
  term sends exactly one load with the new term; the People page holds no page number
  and its request carries none.
\<close>

theorem filter_or_search_change_reloads:
  "(v \<noteq> filter_st s \<longrightarrow>
       page (pagination (AllImages_select_filter v s)) = 1
     \<and> filter_st (AllImages_select_filter v s) = v
     \<and> requests (AllImages_select_filter v s)
         = requests s @ [Images_getAll 1 (per_page (pagination s)) v, People_getAll None])
   \<and> (q \<noteq> search t \<longrightarrow>
       search (People_search_onChange q t) = q
     \<and> requests (People_search_onChange q t) = requests t @ [People_getAll (Some q)])"
  by (simp add: AllImages_select_filter_def AllImages_filter_onClick_def AllImages_useEffect_def
        AllImages_deps_def AllImages_fetchData_start_def
        People_search_onChange_def People_useEffect_def People_fetchPeople_start_def)

theorem filter_or_search_change_reloads_witness:
  "''identified'' \<noteq> filter_st sample_AllImages
   \<and> page (pagination sample_AllImages) = 2
   \<and> page (pagination (AllImages_select_filter ''identified'' sample_AllImages)) = 1
   \<and> requests (AllImages_select_filter ''identified'' sample_AllImages)
       = [Images_getAll 1 30 ''identified'', People_getAll None]
   \<and> ''bo'' \<noteq> search sample_People
   \<and> requests (People_search_onChange ''bo'' sample_People) = [People_getAll (Some ''bo'')]"
  using filter_or_search_change_reloads [of "''identified''" sample_AllImages "''bo''" sample_People]
  by (simp add: sample_AllImages_def sample_People_def)

text \<open>
  C7 as stated fails for the search term: the one request sent after typing \<open>bo\<close>
  carries no page.
\<close>

theorem search_change_counterexample:
  "requests (People_search_onChange ''bo'' sample_People) = [People_getAll (Some ''bo'')]
   \<and> map request_page (requests (People_search_onChange ''bo'' sample_People)) \<noteq> [Some 1]"
  by (simp add: People_search_onChange_def People_useEffect_def People_fetchPeople_start_def
        sample_People_def)

text \<open>
  C8. \<open>handleDelete\<close> leaves the held number of pages as it was, in AllImages, in
  Unidentified and, where a person is held, in PersonDetail.
\<close>

theorem removeItem_keeps_totalPages:
  "pages (pagination (AllImages_handleDelete i s)) = pages (pagination s)
   \<and> pages (pagination (Unidentified_handleDelete i u)) = pages (pagination u)
   \<and> (case PersonDetail_handleImageDelete i t of
         Inl e \<Rightarrow> person t = None
       | Inr t' \<Rightarrow> pages (pagination t') = pages (pagination t))"
  by (simp add: AllImages_handleDelete_def Unidentified_handleDelete_def
        PersonDetail_handleImageDelete_def split: option.split)

text \<open>
  With 31 images at 30 a page, deleting one leaves 2 pages held where the spec's formula
  gives 1.
\<close>

theorem removeItem_keeps_totalPages_witness:
  "pages (pagination (AllImages_handleDelete (JNum 31) sample_AllImages)) = 2
   \<and> spec_totalPages (total_pg (pagination (AllImages_handleDelete (JNum 31) sample_AllImages)))
        (per_page (pagination (AllImages_handleDelete (JNum 31) sample_AllImages))) = 1
   \<and> pages (pagination (Unidentified_handleDelete (JNum 31) sample_Unidentified)) = 1
   \<and> (case PersonDetail_handleImageDelete (JNum 31) sample_PersonDetail of
         Inl e \<Rightarrow> False
       | Inr t' \<Rightarrow> pages (pagination t') = 1)"
  using removeItem_keeps_totalPages
          [of "JNum 31" sample_AllImages sample_Unidentified sample_PersonDetail]
  by (simp add: AllImages_handleDelete_def PersonDetail_handleImageDelete_def spec_totalPages_def
        sample_AllImages_def sample_Unidentified_def sample_PersonDetail_def)

text \<open>
  C9. In PersonDetail with a person held, \<open>handleImageDelete\<close> returns a state whose
  items are the former ones without the given id, whose total is lower by one and whose
  person has one image less; it sends no request, and the page's effect does not run
  again. Where the id is held and the held ids are distinct, one item is gone.
\<close>

theorem person_detail_delete:
  assumes "person s = Some p"
  shows "case PersonDetail_handleImageDelete imageId s of
           Inl e \<Rightarrow> False
         | Inr s' \<Rightarrow>
             images s' = filter (\<lambda>img. id_img img \<noteq> imageId) (images s)
           \<and> total_pg (pagination s') = total_pg (pagination s) - 1
           \<and> person s' = Some (p\<lparr>image_count := image_count p - 1\<rparr>)
           \<and> requests s' = requests s
           \<and> PersonDetail_useEffect (PersonDetail_deps s) s' = s'
           \<and> (distinct (map id_img (images s)) \<and> imageId \<in> id_img ` set (images s) \<longrightarrow>
                length (images s') = length (images s) - 1)"
  using assms
  by (simp add: PersonDetail_handleImageDelete_def PersonDetail_useEffect_def PersonDetail_deps_def
        strict_neq_def length_filter_one)

theorem person_detail_delete_witness:
  "person sample_PersonDetail = Some (sample_person 7 ''Ann'' 10)
   \<and> distinct (map id_img (images sample_PersonDetail))
   \<and> JNum 3 \<in> id_img ` set (images sample_PersonDetail)
   \<and> (case PersonDetail_handleImageDelete (JNum 3) sample_PersonDetail of
         Inl e \<Rightarrow> False
       | Inr s' \<Rightarrow>
           map id_img (images s') = map JNum [1, 2, 4, 5, 6, 7, 8, 9, 10]
         \<and> total_pg (pagination s') = 9
         \<and> map_option image_count (person s') = Some 9
         \<and> requests s' = []
         \<and> length (images s') = 9)"
  using person_detail_delete [of sample_PersonDetail "sample_person 7 ''Ann'' 10" "JNum 3"]
  by (simp add: PersonDetail_handleImageDelete_def sample_PersonDetail_def sample_image_def
        sample_person_def strict_neq_def)

text \<open>
  C10. In Unidentified, \<open>handleAssign\<close> with \<open>null\<close> (or no value) for the new owner
  returns the state it was given: items, total, pages and everything else.
\<close>

theorem unidentified_unassign_noop:
  "Unidentified_handleAssign imageId JNull s = s
   \<and> Unidentified_handleAssign imageId JUndefined s = s"
  by (simp add: Unidentified_handleAssign_def)

end
